theory Spec2Isabelle
  imports Main "HOL-Library.Word"
begin

unbundle bit_operations_syntax

section \<open>art: the artifact installer of \<^verbatim>\<open>art/command_line.py\<close>\<close>

text \<open>
  A shallow embedding of the install-rule compiler, the archive installer and the
  download step of \<^verbatim>\<open>src/art/command_line.py\<close>.  Python strings are \<^typ>\<open>string\<close>,
  Python integers are \<^typ>\<open>int\<close>, byte strings are lists of 8-bit words.  Paths follow
  the POSIX flavour of \<^verbatim>\<open>os.path\<close> (\<^verbatim>\<open>os.sep == '/'\<close>), the separator the source
  itself tests for in \<^verbatim>\<open>source.endswith('/')\<close>.
\<close>

type_synonym bytes = "8 word list"

subsection \<open>String and path primitives of the Python library\<close>

text \<open>\<^verbatim>\<open>f.startswith(s)\<close>, \<^verbatim>\<open>s.endswith('/')\<close> and the slice \<^verbatim>\<open>f[len(s):]\<close>.\<close>

definition startswith :: "string \<Rightarrow> string \<Rightarrow> bool" where
  "startswith f s = (take (length s) f = s)"

definition endswith :: "string \<Rightarrow> string \<Rightarrow> bool" where
  "endswith f s = (drop (length f - length s) f = s \<and> length s \<le> length f)"

definition slice_from :: "string \<Rightarrow> nat \<Rightarrow> string" where
  "slice_from f n = drop n f"

text \<open>
  \<^verbatim>\<open>os.path.join(a, b)\<close> of \<^verbatim>\<open>posixpath\<close> for two arguments: an absolute \<open>b\<close>
  replaces what came before it; otherwise \<open>b\<close> is appended, after a separator unless
  \<open>a\<close> is empty or already ends with one.
\<close>

definition path_join :: "string \<Rightarrow> string \<Rightarrow> string" where
  "path_join a b =
     (if startswith b ''/'' then b
      else if a = [] \<or> endswith a ''/'' then a @ b
      else a @ ''/'' @ b)"

text \<open>
  \<^verbatim>\<open>os.path.dirname(p)\<close> of \<^verbatim>\<open>posixpath\<close>: everything up to and including the last
  separator, with the trailing separators stripped unless the head consists of
  separators only.
\<close>

definition rstrip_sep :: "string \<Rightarrow> string" where
  "rstrip_sep p = rev (dropWhile (\<lambda>c. c = CHR ''/'') (rev p))"

definition dirname :: "string \<Rightarrow> string" where
  "dirname p =
     (let head = rev (dropWhile (\<lambda>c. c \<noteq> CHR ''/'') (rev p))
      in if head \<noteq> [] \<and> filter (\<lambda>c. c \<noteq> CHR ''/'') head \<noteq> [] then rstrip_sep head else head)"

text \<open>\<^verbatim>\<open>'{}'.format(n)\<close> for an integer: its decimal numeral.\<close>

fun digits :: "nat \<Rightarrow> string" where
  "digits n =
     (if n < 10 then [char_of (48 + n)]
      else digits (n div 10) @ [char_of (48 + n mod 10)])"

definition format_int :: "int \<Rightarrow> string" where
  "format_int n = (if n < 0 then CHR ''-'' # digits (nat (- n)) else digits (nat n))"

subsection \<open>\<^verbatim>\<open>zip_name\<close>\<close>

definition zip_name :: "string \<Rightarrow> int \<Rightarrow> string" where
  "zip_name project job_id = path_join project (format_int job_id @ ''.zip'')"

subsection \<open>The install-rule compiler (\<^verbatim>\<open>install\<close>, lines 168--189)\<close>

text \<open>
  A compiled rule is the pair of lambdas the source appends to \<^verbatim>\<open>installs\<close>:
  a matcher and a translator, each closed over its own \<open>source\<close> and \<open>destination\<close>.
\<close>

type_synonym install_rule = "(string \<Rightarrow> bool) \<times> (string \<Rightarrow> string)"

definition compile_rule :: "string \<times> string \<Rightarrow> install_rule" where
  "compile_rule sd =
     (let source = fst sd; destination = snd sd in
      if source = ''.'' then
        (\<lambda>f. True, \<lambda>f. path_join destination f)
      else if endswith source ''/'' then
        (\<lambda>f. startswith f source, \<lambda>f. path_join destination (slice_from f (length source)))
      else
        (\<lambda>f. f = source, \<lambda>f. destination))"

text \<open>
  The mapping \<^verbatim>\<open>entry['install']\<close> is iterated with \<^verbatim>\<open>.items()\<close>; it is modelled as
  the list of its (source, destination) items in iteration order.
\<close>

definition compile_installs :: "(string \<times> string) list \<Rightarrow> install_rule list" where
  "compile_installs items = map compile_rule items"

subsection \<open>Archive members and the calls made on the environment\<close>

text \<open>
  The fields of \<^verbatim>\<open>zipfile.ZipInfo\<close> that the source reads.
\<close>

record zipinfo =
  filename :: string
  create_system :: int
  external_attr :: int

text \<open>
  \<^verbatim>\<open>install_member\<close> acts on the world only through calls of the Python library and of
  \<^verbatim>\<open>_paths.mkdirs\<close>.  Each such call is an operation handed to the environment \<open>sys\<close>,
  which returns the new world or the exception raised:
  \<^item> \<open>Echo\<close>: \<^verbatim>\<open>click.echo\<close> of the progress line, with the member's name, the target
    and the argument of \<^verbatim>\<open>stat.filemode\<close> when a mode was resolved (line 80);
  \<^item> \<open>Mkdirs\<close>: \<^verbatim>\<open>_paths.mkdirs\<close> (line 82);
  \<^item> \<open>OpenMember\<close>: \<^verbatim>\<open>archive.open(member)\<close> (line 83);
  \<^item> \<open>OpenTarget\<close>: \<^verbatim>\<open>open(target, 'wb')\<close> (line 84);
  \<^item> \<open>CopyFileObj\<close>: \<^verbatim>\<open>shutil.copyfileobj(fmember, ftarget)\<close> (line 85);
  \<^item> \<open>Chmod\<close>: \<^verbatim>\<open>os.chmod(target, access)\<close> (line 88).
\<close>

datatype fs_op =
    Echo string string "int option"
  | Mkdirs string
  | OpenMember zipinfo
  | OpenTarget string
  | CopyFileObj zipinfo string
  | Chmod string int

text \<open>An exception leaves the rest of the function unexecuted.\<close>

definition io_bind :: "'e + 'w \<Rightarrow> ('w \<Rightarrow> 'e + 'w) \<Rightarrow> 'e + 'w" where
  "io_bind r k = (case r of Inl e \<Rightarrow> Inl e | Inr w \<Rightarrow> k w)"

subsection \<open>\<^verbatim>\<open>install_member\<close> (lines 60--88)\<close>

definition S_IRWXUGO :: int where
  "S_IRWXUGO = 511"

text \<open>\<^verbatim>\<open>stat.S_IFMT(mode)\<close> is \<^verbatim>\<open>mode & 0o170000\<close>.\<close>

definition S_IFMT :: "int \<Rightarrow> int" where
  "S_IFMT mode = mode AND 61440"

text \<open>
  The value of the local variable \<^verbatim>\<open>access\<close> after lines 68--78: \<open>None\<close> unless the
  member was created on Unix (\<^verbatim>\<open>create_system == 3\<close>).
\<close>

definition member_access :: "zipinfo \<Rightarrow> int option" where
  "member_access member =
     (if create_system member = 3 then
        (let filemode = drop_bit 16 (external_attr member)
         in Some (filemode AND S_IRWXUGO))
      else None)"

text \<open>
  What \<^verbatim>\<open>filemode_str\<close> is made of: the argument of \<^verbatim>\<open>stat.filemode\<close> on line 78, or
  \<open>None\<close> for the empty string of line 69.
\<close>

definition member_filemode :: "zipinfo \<Rightarrow> int option" where
  "member_filemode member =
     (if create_system member = 3 then
        (let filemode = drop_bit 16 (external_attr member);
             access = filemode AND S_IRWXUGO
         in Some (S_IFMT filemode OR access))
      else None)"

definition install_member ::
  "(fs_op \<Rightarrow> 'w \<Rightarrow> 'e + 'w) \<Rightarrow> zipinfo \<Rightarrow> string \<Rightarrow> 'w \<Rightarrow> 'e + 'w" where
  "install_member sys member target w =
     io_bind (sys (Echo (filename member) target (member_filemode member)) w) (\<lambda>w.
     io_bind (if CHR ''/'' \<in> set target then sys (Mkdirs (dirname target)) w else Inr w) (\<lambda>w.
     io_bind (sys (OpenMember member) w) (\<lambda>w.
     io_bind (sys (OpenTarget target) w) (\<lambda>w.
     io_bind (sys (CopyFileObj member target) w) (\<lambda>w.
     (case member_access member of
        None \<Rightarrow> Inr w
      | Some access \<Rightarrow> sys (Chmod target access) w))))))"

subsection \<open>The archive loop of \<^verbatim>\<open>install\<close> (lines 199--206)\<close>

text \<open>The inner loop \<^verbatim>\<open>for match, translate in installs\<close>, for one member.\<close>

fun install_rules ::
  "(fs_op \<Rightarrow> 'w \<Rightarrow> 'e + 'w) \<Rightarrow> zipinfo \<Rightarrow> install_rule list \<Rightarrow> 'w \<Rightarrow> 'e + 'w" where
  "install_rules sys member [] w = Inr w"
| "install_rules sys member ((match, translate) # installs) w =
     (if match (filename member) then
        io_bind (install_member sys member (translate (filename member)) w)
          (install_rules sys member installs)
      else install_rules sys member installs w)"

text \<open>The outer loop \<^verbatim>\<open>for member in archive.infolist()\<close>.\<close>

fun install_infolist ::
  "(fs_op \<Rightarrow> 'w \<Rightarrow> 'e + 'w) \<Rightarrow> install_rule list \<Rightarrow> zipinfo list \<Rightarrow> 'w \<Rightarrow> 'e + 'w" where
  "install_infolist sys installs [] w = Inr w"
| "install_infolist sys installs (member # members) w =
     (if endswith (filename member) ''/'' then install_infolist sys installs members w
      else io_bind (install_rules sys member installs w)
             (install_infolist sys installs members))"

text \<open>
  One pass of the entry loop (lines 166--206), given the members of the entry's archive:
  the rules are compiled from the entry's install items, then \<^verbatim>\<open>del source, destination\<close>
  (line 191) raises \<^verbatim>\<open>UnboundLocalError\<close> when the mapping was empty and the loop
  variables were never bound, and otherwise the members are installed.  An exception of
  the environment passes through as \<open>Raised\<close>.
\<close>

datatype 'e install_error = UnboundLocalError | Raised 'e

definition install_entry ::
  "(fs_op \<Rightarrow> 'w \<Rightarrow> 'e + 'w) \<Rightarrow> (string \<times> string) list \<Rightarrow> zipinfo list \<Rightarrow> 'w
     \<Rightarrow> 'e install_error + 'w" where
  "install_entry sys items infolist w =
     (let installs = compile_installs items
      in if items = [] then Inl UnboundLocalError
         else (case install_infolist sys installs infolist w of
                 Inl e \<Rightarrow> Inl (Raised e)
               | Inr w' \<Rightarrow> Inr w'))"

subsection \<open>Two environments\<close>

text \<open>
  The recording environment never fails and keeps the list of the operations it was
  asked to perform, oldest first.
\<close>

definition trace_sys :: "fs_op \<Rightarrow> fs_op list \<Rightarrow> unit + fs_op list" where
  "trace_sys op tr = Inr (tr @ [op])"

text \<open>
  A file system in which every directory can be created and every file written.  A
  file has a content and permission bits; a new file gets the bits \<open>umode\<close> (what the
  process's umask leaves of \<^verbatim>\<open>0o666\<close>), a file that exists keeps its bits when it is
  opened for writing, and \<^verbatim>\<open>chmod\<close> of a missing path fails.  \<open>payload\<close> gives
  the decompressed bytes of each member of the open archive.
\<close>

record filesys =
  files :: "string \<rightharpoonup> bytes \<times> int"
  made_dirs :: "string list"
  console :: "(string \<times> string \<times> int option) list"

fun posix_sys :: "(zipinfo \<Rightarrow> bytes) \<Rightarrow> int \<Rightarrow> fs_op \<Rightarrow> filesys \<Rightarrow> string + filesys" where
  "posix_sys payload umode (Echo name target mode) w =
     Inr (w\<lparr>console := console w @ [(name, target, mode)]\<rparr>)"
| "posix_sys payload umode (Mkdirs d) w =
     Inr (w\<lparr>made_dirs := made_dirs w @ [d]\<rparr>)"
| "posix_sys payload umode (OpenMember member) w = Inr w"
| "posix_sys payload umode (OpenTarget target) w =
     (case files w target of
        None \<Rightarrow> Inr (w\<lparr>files := (files w)(target \<mapsto> ([], umode))\<rparr>)
      | Some (old, mode) \<Rightarrow> Inr (w\<lparr>files := (files w)(target \<mapsto> ([], mode))\<rparr>))"
| "posix_sys payload umode (CopyFileObj member target) w =
     (case files w target of
        None \<Rightarrow> Inl ''EBADF''
      | Some (old, mode) \<Rightarrow> Inr (w\<lparr>files := (files w)(target \<mapsto> (old @ payload member, mode))\<rparr>))"
| "posix_sys payload umode (Chmod target access) w =
     (case files w target of
        None \<Rightarrow> Inl ''ENOENT''
      | Some (content, mode) \<Rightarrow> Inr (w\<lparr>files := (files w)(target \<mapsto> (content, access))\<rparr>))"

text \<open>The operations of a trace that set permission bits.\<close>

fun is_chmod :: "fs_op \<Rightarrow> bool" where
  "is_chmod (Chmod target access) = True"
| "is_chmod other = False"

subsection \<open>The local cache and \<^verbatim>\<open>download\<close> (lines 143--157)\<close>

text \<open>
  The module \<^verbatim>\<open>_cache\<close> is not part of the sources at hand; its two operations are
  modelled from the specification.  A cache holds the backing files of its entries, by
  key, and the temporary files of the saves in progress.
\<close>

datatype cache_error = KeyError string | Interrupted

record cache =
  entries :: "string \<rightharpoonup> bytes"
  temps :: "string \<rightharpoonup> bytes"

text \<open>
  Modelled from the spec: \<^verbatim>\<open>_cache.get\<close>, missing from the sources.  ``\<open>get(key)\<close>
  yields a readable byte source, fails with NotFound if no backing file exists for
  \<open>key\<close>''; the caller in \<^verbatim>\<open>download\<close> catches it as \<^verbatim>\<open>KeyError\<close>.
\<close>

definition cache_get :: "cache \<Rightarrow> string \<Rightarrow> cache_error + bytes" where
  "cache_get c key = (case entries c key of None \<Rightarrow> Inl (KeyError key) | Some content \<Rightarrow> Inr content)"

text \<open>
  What the body of the \<^verbatim>\<open>with\<close> block writes into the sink: the chunks handed to
  \<^verbatim>\<open>f.write\<close> by \<^verbatim>\<open>job.artifacts(streamed=True, action=f.write)\<close>, and whether the
  call then returned (\<open>True\<close>) or was cut short by an exception (\<open>False\<close>).
\<close>

type_synonym transfer = "bytes list \<times> bool"

definition sink_write :: "string \<Rightarrow> bytes \<Rightarrow> cache \<Rightarrow> cache" where
  "sink_write key chunk c =
     c\<lparr>temps := (temps c)(key \<mapsto> (case temps c key of None \<Rightarrow> chunk | Some written \<Rightarrow> written @ chunk))\<rparr>"

text \<open>
  Modelled from the spec: \<^verbatim>\<open>_cache.save_file\<close>, missing from the sources.  ``The sink
  is opened against a temporary location and atomically promoted to the final backing
  path only on clean completion of the scope''; on abnormal termination of the writer
  ``the temporary file must be discarded, never left as a valid-looking entry''.
\<close>

definition save_file :: "cache \<Rightarrow> string \<Rightarrow> transfer \<Rightarrow> (cache_error + unit) \<times> cache" where
  "save_file c key body =
     (let opened = c\<lparr>temps := (temps c)(key \<mapsto> [])\<rparr>;
          written = fold (sink_write key) (fst body) opened
      in if snd body then
           (Inr (), written\<lparr>entries := (entries written)(key := temps written key),
                            temps := (temps written)(key := None)\<rparr>)
         else
           (Inl Interrupted, written\<lparr>temps := (temps written)(key := None)\<rparr>))"

text \<open>The three progress lines of \<^verbatim>\<open>download\<close>, with the project and the job id.\<close>

datatype progress =
    Downloading string int
  | Downloaded string int
  | Present string int

text \<open>
  One pass of the loop of \<^verbatim>\<open>download\<close> for the entry \<open>(project, job_id)\<close>.  The remote
  service \<open>gitlab\<close> gives the transfer of a job's artifacts.  The state is the cache and
  the lines echoed so far.
\<close>

definition download_entry ::
  "(string \<Rightarrow> int \<Rightarrow> transfer) \<Rightarrow> string \<times> int \<Rightarrow> cache \<times> progress list
     \<Rightarrow> (cache_error + unit) \<times> cache \<times> progress list" where
  "download_entry gitlab entry st =
     (let project = fst entry; job_id = snd entry; c = fst st; out = snd st;
          filename = zip_name project job_id
      in case cache_get c filename of
           Inl (KeyError k) \<Rightarrow>
             (let out1 = out @ [Downloading project job_id];
                  saved = save_file c filename (gitlab project job_id)
              in case fst saved of
                   Inl e \<Rightarrow> (Inl e, snd saved, out1)
                 | Inr u \<Rightarrow> (Inr (), snd saved, out1 @ [Downloaded project job_id]))
         | Inl e \<Rightarrow> (Inl e, c, out)
         | Inr content \<Rightarrow> (Inr (), c, out @ [Present project job_id]))"

fun download ::
  "(string \<Rightarrow> int \<Rightarrow> transfer) \<Rightarrow> (string \<times> int) list \<Rightarrow> cache \<times> progress list
     \<Rightarrow> (cache_error + unit) \<times> cache \<times> progress list" where
  "download gitlab [] st = (Inr (), st)"
| "download gitlab (entry # artifacts_lock) st =
     (case download_entry gitlab entry st of
        (Inl e, st') \<Rightarrow> (Inl e, st')
      | (Inr u, st') \<Rightarrow> download gitlab artifacts_lock st')"

subsection \<open>Where a path leads\<close>

text \<open>
  To say that a target lies under a directory, paths are normalised as
  \<^verbatim>\<open>posixpath.normpath\<close> does: split at the separators, empty and \<open>.\<close> components
  dropped, and \<open>..\<close> cancelling the component before it (at the root of an absolute
  path it is dropped, at the start of a relative path it is kept).
\<close>

fun split_sep :: "string \<Rightarrow> string list" where
  "split_sep [] = [[]]"
| "split_sep (c # cs) =
     (if c = CHR ''/'' then [] # split_sep cs
      else (case split_sep cs of [] \<Rightarrow> [[c]] | component # components \<Rightarrow> (c # component) # components))"

fun norm_comps :: "bool \<Rightarrow> string list \<Rightarrow> string list \<Rightarrow> string list" where
  "norm_comps initial_slashes new_comps [] = new_comps"
| "norm_comps initial_slashes new_comps (component # components) =
     (if component = [] \<or> component = ''.'' then norm_comps initial_slashes new_comps components
      else if component \<noteq> ''..'' \<or> (\<not> initial_slashes \<and> new_comps = [])
                \<or> (new_comps \<noteq> [] \<and> last new_comps = ''..'')
        then norm_comps initial_slashes (new_comps @ [component]) components
      else if new_comps \<noteq> [] then norm_comps initial_slashes (butlast new_comps) components
      else norm_comps initial_slashes new_comps components)"

definition normal_comps :: "string \<Rightarrow> string list" where
  "normal_comps p = norm_comps (startswith p ''/'') [] (split_sep p)"

text \<open>
  \<open>p\<close> lies under the directory \<open>root\<close>: both are absolute or both relative, and the
  normal form of \<open>p\<close> is that of \<open>root\<close> followed by components that do not climb out
  again.
\<close>

definition path_under :: "string \<Rightarrow> string \<Rightarrow> bool" where
  "path_under root p =
     (let r = normal_comps root; q = normal_comps p
      in startswith p ''/'' = startswith root ''/'' \<and> take (length r) q = r
         \<and> take 1 (drop (length r) q) \<noteq> [''..''])"

subsection \<open>Notions used to state the properties\<close>

text \<open>Actions run one after the other, up to the first exception.\<close>

fun in_sequence :: "('w \<Rightarrow> 'e + 'w) list \<Rightarrow> 'w \<Rightarrow> 'e + 'w" where
  "in_sequence [] w = Inr w"
| "in_sequence (action # actions) w = io_bind (action w) (in_sequence actions)"

text \<open>The operations of a trace that write a member's bytes.\<close>

fun is_copy :: "fs_op \<Rightarrow> bool" where
  "is_copy (CopyFileObj member target) = True"
| "is_copy other = False"

section \<open>Properties\<close>

subsection \<open>Strings and paths\<close>

lemma endswith_sep: "endswith s ''/'' = (s \<noteq> [] \<and> last s = CHR ''/'')"
  unfolding endswith_def by (cases s rule: rev_cases) auto

lemma startswith_iff: "startswith f s = (\<exists>rest. f = s @ rest)"
  unfolding startswith_def by (metis append_eq_conv_conj append_take_drop_id)

subsection \<open>The three kinds of rule\<close>

lemma compile_rule_copy_all:
  "compile_rule (''.'', d) = (\<lambda>f. True, \<lambda>f. path_join d f)"
  by (simp add: compile_rule_def)

lemma compile_rule_directory:
  assumes "endswith s ''/''"
  shows "compile_rule (s, d) = (\<lambda>f. startswith f s, \<lambda>f. path_join d (slice_from f (length s)))"
proof -
  have "s \<noteq> ''.''" using assms by (auto simp: endswith_sep)
  with assms show ?thesis by (simp add: compile_rule_def)
qed

lemma compile_rule_exact:
  assumes "s \<noteq> ''.''" and "\<not> endswith s ''/''"
  shows "compile_rule (s, d) = (\<lambda>f. f = s, \<lambda>f. d)"
  using assms by (simp add: compile_rule_def)

text \<open>
  C4.  A pattern that ends in the separator compiles to the directory kind: its matcher
  is true exactly of the filenames that have the pattern as a prefix, and its translator
  sends such a filename to the destination joined with what follows the prefix.
\<close>

theorem directory_rule_prefix:
  assumes "endswith source ''/''"
  shows "(fst (compile_rule (source, destination)) f \<longleftrightarrow> (\<exists>rest. f = source @ rest))
       \<and> snd (compile_rule (source, destination)) (source @ rest) = path_join destination rest
       \<and> (fst (compile_rule (source, destination)) f \<longrightarrow>
            snd (compile_rule (source, destination)) f
              = path_join destination (drop (length source) f))"
  by (simp add: compile_rule_directory [OF assms] startswith_iff slice_from_def)

text \<open>The pattern \<open>bin/\<close> with destination \<open>out\<close> sends \<open>bin/tool\<close> to \<open>out/tool\<close>.\<close>

theorem directory_rule_prefix_witness:
  "endswith ''bin/'' ''/''
   \<and> fst (compile_rule (''bin/'', ''out'')) ''bin/tool''
   \<and> snd (compile_rule (''bin/'', ''out'')) ''bin/tool'' = ''out/tool''
   \<and> \<not> fst (compile_rule (''bin/'', ''out'')) ''sbin/tool''"
proof -
  have h: "endswith ''bin/'' ''/''" by (simp add: endswith_def)
  have t: "path_join ''out'' ''tool'' = ''out/tool''"
    by (simp add: path_join_def startswith_def endswith_def)
  from directory_rule_prefix [OF h, of "''out''" "''bin/tool''" "''tool''"]
       directory_rule_prefix [OF h, of "''out''" "''sbin/tool''" "''tool''"] h t
  show ?thesis by simp
qed

text \<open>
  C5.  The pattern \<open>.\<close> compiles to the copy-all kind: its matcher is true of every
  filename and its translator joins the destination with the filename as it is.
\<close>

theorem copy_all_rule:
  "fst (compile_rule (''.'', destination)) f
   \<and> snd (compile_rule (''.'', destination)) f = path_join destination f"
  by (simp add: compile_rule_copy_all)

theorem copy_all_rule_witness:
  "fst (compile_rule (''.'', ''out'')) ''lib/x.so''
   \<and> snd (compile_rule (''.'', ''out'')) ''lib/x.so'' = ''out/lib/x.so''"
  using copy_all_rule [of "''out''" "''lib/x.so''"]
  by (simp add: path_join_def startswith_def endswith_def)

text \<open>
  C6.  A pattern that is neither \<open>.\<close> nor ends in the separator compiles to the
  exact-file kind: its matcher is true of the pattern itself only, and its translator
  yields the destination whatever the filename.  The empty pattern is of this kind and
  matches the empty filename only.
\<close>

theorem exact_file_rule:
  "(source \<noteq> ''.'' \<and> \<not> endswith source ''/'' \<longrightarrow>
      (fst (compile_rule (source, destination)) f \<longleftrightarrow> f = source)
      \<and> snd (compile_rule (source, destination)) f = destination)
   \<and> (fst (compile_rule ([], destination)) f \<longleftrightarrow> f = [])
   \<and> snd (compile_rule ([], destination)) f = destination"
proof -
  have e: "\<not> endswith [] ''/''" by (simp add: endswith_def)
  have "compile_rule ([], destination) = (\<lambda>f. f = [], \<lambda>f. destination)"
    by (rule compile_rule_exact) (simp_all add: e)
  then show ?thesis by (simp add: compile_rule_exact)
qed

theorem exact_file_rule_witness:
  "''README'' \<noteq> ''.'' \<and> \<not> endswith ''README'' ''/''
   \<and> fst (compile_rule (''README'', ''doc/README.txt'')) ''README''
   \<and> \<not> fst (compile_rule (''README'', ''doc/README.txt'')) ''README.md''
   \<and> snd (compile_rule (''README'', ''doc/README.txt'')) ''README'' = ''doc/README.txt''
   \<and> \<not> fst (compile_rule ([], ''doc'')) ''README''"
proof -
  have h: "''README'' \<noteq> ''.'' \<and> \<not> endswith ''README'' ''/''" by (simp add: endswith_def)
  from exact_file_rule [of "''README''" "''doc/README.txt''" "''README''"]
       exact_file_rule [of "''README''" "''doc/README.txt''" "''README.md''"]
       exact_file_rule [of "''README''" "''doc''" "''README''"] h
  show ?thesis by simp
qed

subsection \<open>The archive loop\<close>

lemmas path_eval = compile_installs_def compile_rule_def path_join_def startswith_def
  endswith_def slice_from_def Let_def

lemma io_bind_Inr [simp]: "io_bind (Inr w) k = k w"
  by (simp add: io_bind_def)

lemma io_bind_Inl [simp]: "io_bind (Inl e) k = Inl e"
  by (simp add: io_bind_def)

lemma install_rules_in_sequence:
  "install_rules sys member installs w =
     in_sequence (map (\<lambda>r. install_member sys member (snd r (filename member)))
                      (filter (\<lambda>r. fst r (filename member)) installs)) w"
proof (induction installs arbitrary: w)
  case Nil
  show ?case by simp
next
  case (Cons r installs)
  obtain match translate where r: "r = (match, translate)" by (cases r)
  have rest: "install_rules sys member installs =
     in_sequence (map (\<lambda>r. install_member sys member (snd r (filename member)))
                      (filter (\<lambda>r. fst r (filename member)) installs))"
    using Cons.IH by (rule ext)
  show ?case by (simp add: r rest Cons.IH)
qed

lemma install_member_trace:
  "install_member trace_sys m t tr =
     Inr (tr @ Echo (filename m) t (member_filemode m)
             # (if CHR ''/'' \<in> set t then [Mkdirs (dirname t)] else [])
             @ [OpenMember m, OpenTarget t, CopyFileObj m t]
             @ (case member_access m of None \<Rightarrow> [] | Some a \<Rightarrow> [Chmod t a]))"
  by (simp add: install_member_def trace_sys_def split: option.splits)

lemma install_member_trace_copies:
  "\<exists>ops. install_member trace_sys m t tr = Inr (tr @ ops) \<and> filter is_copy ops = [CopyFileObj m t]"
  by (simp add: install_member_trace split: option.splits)

lemma install_infolist_single:
  "\<not> endswith (filename member) ''/'' \<Longrightarrow>
     install_infolist sys installs [member] w = install_rules sys member installs w"
  by (simp add: io_bind_def split: sum.splits)

lemma in_sequence_append:
  "in_sequence (xs @ ys) w = io_bind (in_sequence xs w) (in_sequence ys)"
proof (induction xs arbitrary: w)
  case Nil
  show ?case by simp
next
  case (Cons x xs)
  show ?case by (cases "x w") (simp_all add: Cons.IH)
qed

lemma install_infolist_in_sequence:
  "install_infolist sys installs members w =
     in_sequence
       (map (\<lambda>mt. install_member sys (fst mt) (snd mt))
          (concat (map (\<lambda>m. map (\<lambda>r. (m, snd r (filename m)))
                                (filter (\<lambda>r. fst r (filename m)) installs))
                       (filter (\<lambda>m. \<not> endswith (filename m) ''/'') members)))) w"
proof (induction members arbitrary: w)
  case Nil
  show ?case by simp
next
  case (Cons member members)
  have rest: "install_infolist sys installs members =
     in_sequence
       (map (\<lambda>mt. install_member sys (fst mt) (snd mt))
          (concat (map (\<lambda>m. map (\<lambda>r. (m, snd r (filename m)))
                                (filter (\<lambda>r. fst r (filename m)) installs))
                       (filter (\<lambda>m. \<not> endswith (filename m) ''/'') members))))"
    using Cons.IH by (rule ext)
  show ?case
    by (simp add: rest install_rules_in_sequence in_sequence_append comp_def)
qed

lemma in_sequence_trace_pairs:
  "\<exists>ops. in_sequence (map (\<lambda>mt. install_member trace_sys (fst mt) (snd mt)) pairs) tr
            = Inr (tr @ ops)
        \<and> filter is_copy ops = map (\<lambda>mt. CopyFileObj (fst mt) (snd mt)) pairs"
proof (induction pairs arbitrary: tr)
  case Nil
  show ?case by simp
next
  case (Cons p pairs)
  obtain ops1 where 1: "install_member trace_sys (fst p) (snd p) tr = Inr (tr @ ops1)"
    and c1: "filter is_copy ops1 = [CopyFileObj (fst p) (snd p)]"
    using install_member_trace_copies by blast
  obtain ops2 where 2: "in_sequence (map (\<lambda>mt. install_member trace_sys (fst mt) (snd mt)) pairs)
        (tr @ ops1) = Inr ((tr @ ops1) @ ops2)"
    and c2: "filter is_copy ops2 = map (\<lambda>mt. CopyFileObj (fst mt) (snd mt)) pairs"
    using Cons.IH by blast
  have "in_sequence (map (\<lambda>mt. install_member trace_sys (fst mt) (snd mt)) (p # pairs)) tr
          = Inr (tr @ (ops1 @ ops2))"
    by (simp add: 1 2)
  moreover have "filter is_copy (ops1 @ ops2) = map (\<lambda>mt. CopyFileObj (fst mt) (snd mt)) (p # pairs)"
    by (simp add: c1 c2)
  ultimately show ?case by blast
qed

lemma install_entry_nonempty:
  "items \<noteq> [] \<Longrightarrow>
     install_entry sys items infolist w =
       (case install_infolist sys (map compile_rule items) infolist w of
          Inl e \<Rightarrow> Inl (Raised e)
        | Inr w' \<Rightarrow> Inr w')"
  by (simp add: install_entry_def compile_installs_def)

lemma install_entry_empty_mapping: "install_entry sys [] infolist w = Inl UnboundLocalError"
  by (simp add: install_entry_def)

text \<open>
  C1.  The installer goes through the members of the archive in their order and, for
  every member that is not a directory entry, through all the compiled rules in their
  order; it calls \<open>install_member\<close>, at the destination the rule's translator gives, for
  every rule whose matcher is true of the filename.  The whole archive loop is the
  sequence of exactly these calls: one per member and matching rule, members first and
  rules second, not ending at a member's first match and going on with the members that
  follow.  In the recording environment the bytes of a member are therefore copied once
  per matching rule, in rule order.  The same holds for the pass of an entry, whose rules
  are compiled from the items of the install mapping in the order of the mapping.
\<close>

theorem install_every_matching_rule:
  "install_infolist sys installs members w =
     in_sequence
       (map (\<lambda>mt. install_member sys (fst mt) (snd mt))
          (concat (map (\<lambda>m. map (\<lambda>r. (m, snd r (filename m)))
                                (filter (\<lambda>r. fst r (filename m)) installs))
                       (filter (\<lambda>m. \<not> endswith (filename m) ''/'') members)))) w
   \<and> (\<exists>ops. install_infolist trace_sys installs members tr = Inr (tr @ ops)
          \<and> filter is_copy ops =
              map (\<lambda>mt. CopyFileObj (fst mt) (snd mt))
                (concat (map (\<lambda>m. map (\<lambda>r. (m, snd r (filename m)))
                                      (filter (\<lambda>r. fst r (filename m)) installs))
                             (filter (\<lambda>m. \<not> endswith (filename m) ''/'') members))))
   \<and> (items \<noteq> [] \<longrightarrow>
        install_entry sys items members w =
          (case in_sequence
                  (map (\<lambda>mt. install_member sys (fst mt) (snd mt))
                     (concat (map (\<lambda>m. map (\<lambda>r. (m, snd r (filename m)))
                                           (filter (\<lambda>r. fst r (filename m)) (map compile_rule items)))
                                  (filter (\<lambda>m. \<not> endswith (filename m) ''/'') members)))) w of
             Inl e \<Rightarrow> Inl (Raised e)
           | Inr w' \<Rightarrow> Inr w')
        \<and> (\<exists>ops. install_entry trace_sys items members tr = Inr (tr @ ops)
               \<and> filter is_copy ops =
                   map (\<lambda>mt. CopyFileObj (fst mt) (snd mt))
                     (concat (map (\<lambda>m. map (\<lambda>r. (m, snd r (filename m)))
                                           (filter (\<lambda>r. fst r (filename m)) (map compile_rule items)))
                                  (filter (\<lambda>m. \<not> endswith (filename m) ''/'') members)))))
   \<and> (\<not> endswith (filename member) ''/'' \<longrightarrow>
        install_infolist sys installs (member # members) w =
          io_bind (in_sequence (map (\<lambda>r. install_member sys member (snd r (filename member)))
                                  (filter (\<lambda>r. fst r (filename member)) installs)) w)
                  (install_infolist sys installs members)
        \<and> install_infolist sys installs [member] w =
            in_sequence (map (\<lambda>r. install_member sys member (snd r (filename member)))
                             (filter (\<lambda>r. fst r (filename member)) installs)) w)"
proof (intro conjI impI)
  show "install_infolist sys installs members w =
     in_sequence
       (map (\<lambda>mt. install_member sys (fst mt) (snd mt))
          (concat (map (\<lambda>m. map (\<lambda>r. (m, snd r (filename m)))
                                (filter (\<lambda>r. fst r (filename m)) installs))
                       (filter (\<lambda>m. \<not> endswith (filename m) ''/'') members)))) w"
    by (rule install_infolist_in_sequence)
  show "\<exists>ops. install_infolist trace_sys installs members tr = Inr (tr @ ops)
          \<and> filter is_copy ops =
              map (\<lambda>mt. CopyFileObj (fst mt) (snd mt))
                (concat (map (\<lambda>m. map (\<lambda>r. (m, snd r (filename m)))
                                      (filter (\<lambda>r. fst r (filename m)) installs))
                             (filter (\<lambda>m. \<not> endswith (filename m) ''/'') members)))"
    unfolding install_infolist_in_sequence by (rule in_sequence_trace_pairs)
next
  assume ne: "items \<noteq> []"
  show "install_entry sys items members w =
          (case in_sequence
                  (map (\<lambda>mt. install_member sys (fst mt) (snd mt))
                     (concat (map (\<lambda>m. map (\<lambda>r. (m, snd r (filename m)))
                                           (filter (\<lambda>r. fst r (filename m)) (map compile_rule items)))
                                  (filter (\<lambda>m. \<not> endswith (filename m) ''/'') members)))) w of
             Inl e \<Rightarrow> Inl (Raised e)
           | Inr w' \<Rightarrow> Inr w')"
    unfolding install_entry_nonempty [OF ne] install_infolist_in_sequence ..
  obtain ops where o: "in_sequence
       (map (\<lambda>mt. install_member trace_sys (fst mt) (snd mt))
          (concat (map (\<lambda>m. map (\<lambda>r. (m, snd r (filename m)))
                                (filter (\<lambda>r. fst r (filename m)) (map compile_rule items)))
                       (filter (\<lambda>m. \<not> endswith (filename m) ''/'') members)))) tr = Inr (tr @ ops)"
    and c: "filter is_copy ops =
                   map (\<lambda>mt. CopyFileObj (fst mt) (snd mt))
                     (concat (map (\<lambda>m. map (\<lambda>r. (m, snd r (filename m)))
                                           (filter (\<lambda>r. fst r (filename m)) (map compile_rule items)))
                                  (filter (\<lambda>m. \<not> endswith (filename m) ''/'') members)))"
    using in_sequence_trace_pairs by blast
  have "install_entry trace_sys items members tr = Inr (tr @ ops)"
    unfolding install_entry_nonempty [OF ne] install_infolist_in_sequence o by simp
  with c show "\<exists>ops. install_entry trace_sys items members tr = Inr (tr @ ops)
               \<and> filter is_copy ops =
                   map (\<lambda>mt. CopyFileObj (fst mt) (snd mt))
                     (concat (map (\<lambda>m. map (\<lambda>r. (m, snd r (filename m)))
                                           (filter (\<lambda>r. fst r (filename m)) (map compile_rule items)))
                                  (filter (\<lambda>m. \<not> endswith (filename m) ''/'') members)))"
    by blast
next
  assume nd: "\<not> endswith (filename member) ''/''"
  then show "install_infolist sys installs (member # members) w =
          io_bind (in_sequence (map (\<lambda>r. install_member sys member (snd r (filename member)))
                                  (filter (\<lambda>r. fst r (filename member)) installs)) w)
                  (install_infolist sys installs members)"
    by (simp add: install_rules_in_sequence)
  from nd have "install_infolist sys installs [member] w = install_rules sys member installs w"
    by (rule install_infolist_single)
  then show "install_infolist sys installs [member] w =
            in_sequence (map (\<lambda>r. install_member sys member (snd r (filename member)))
                             (filter (\<lambda>r. fst r (filename member)) installs)) w"
    by (simp only: install_rules_in_sequence)
qed

text \<open>
  The archive of \<open>bin/a\<close>, the directory entry \<open>bin/\<close> and \<open>bin/b\<close> under the mapping
  \<open>.\<close>, \<open>lib/\<close>, \<open>bin/\<close>: each of the two files is written twice, by the first rule and
  then by the third, \<open>bin/a\<close> before \<open>bin/b\<close>.
\<close>

theorem install_every_matching_rule_witness:
  "[(''.'', ''all''), (''lib/'', ''vendor''), (''bin/'', ''out'')] \<noteq> []
   \<and> \<not> endswith (filename \<lparr>filename = ''bin/a'', create_system = 3, external_attr = 2179792896\<rparr>) ''/''
   \<and> (\<exists>ops. install_entry trace_sys [(''.'', ''all''), (''lib/'', ''vendor''), (''bin/'', ''out'')]
               [\<lparr>filename = ''bin/a'', create_system = 3, external_attr = 2179792896\<rparr>,
                \<lparr>filename = ''bin/'', create_system = 3, external_attr = 1106051088\<rparr>,
                \<lparr>filename = ''bin/b'', create_system = 0, external_attr = 0\<rparr>] []
             = Inr ops
          \<and> filter is_copy ops =
               [CopyFileObj \<lparr>filename = ''bin/a'', create_system = 3, external_attr = 2179792896\<rparr> ''all/bin/a'',
                CopyFileObj \<lparr>filename = ''bin/a'', create_system = 3, external_attr = 2179792896\<rparr> ''out/a'',
                CopyFileObj \<lparr>filename = ''bin/b'', create_system = 0, external_attr = 0\<rparr> ''all/bin/b'',
                CopyFileObj \<lparr>filename = ''bin/b'', create_system = 0, external_attr = 0\<rparr> ''out/b''])"
  (is "?items \<noteq> [] \<and> \<not> endswith (filename ?a) ''/''
       \<and> (\<exists>ops. install_entry trace_sys ?items ?archive [] = Inr ops \<and> filter is_copy ops = ?copies)")
proof -
  have ne: "?items \<noteq> []" by simp
  have nd: "\<not> endswith (filename ?a) ''/''" by (simp add: endswith_def)
  have f: "map (\<lambda>mt. CopyFileObj (fst mt) (snd mt))
             (concat (map (\<lambda>m. map (\<lambda>r. (m, snd r (filename m)))
                                   (filter (\<lambda>r. fst r (filename m)) (map compile_rule ?items)))
                          (filter (\<lambda>m. \<not> endswith (filename m) ''/'') ?archive)))
           = ?copies"
    by (simp add: path_eval)
  from install_every_matching_rule [where sys = trace_sys and installs = "[]" and members = ?archive
      and w = "[]" and tr = "[]" and items = ?items and member = ?a] ne
  obtain ops where o1: "install_entry trace_sys ?items ?archive [] = Inr ([] @ ops)"
    and o2: "filter is_copy ops =
               map (\<lambda>mt. CopyFileObj (fst mt) (snd mt))
                 (concat (map (\<lambda>m. map (\<lambda>r. (m, snd r (filename m)))
                                       (filter (\<lambda>r. fst r (filename m)) (map compile_rule ?items)))
                              (filter (\<lambda>m. \<not> endswith (filename m) ''/'') ?archive)))"
    by blast
  have 1: "install_entry trace_sys ?items ?archive [] = Inr ops"
    using o1 by (simp only: append_Nil)
  have 2: "filter is_copy ops = ?copies"
    using o2 by (simp only: f)
  from ne nd 1 2 show ?thesis by blast
qed

text \<open>
  C7.  A member whose filename ends in the separator is passed over: the installer calls
  nothing on the environment for it, whatever the rules are, and goes on with the
  members that follow.
\<close>

theorem directory_entry_skipped:
  assumes "endswith (filename member) ''/''"
  shows "install_infolist sys installs [member] w = Inr w
       \<and> install_infolist sys installs (member # members) w = install_infolist sys installs members w
       \<and> install_infolist trace_sys installs [member] tr = Inr tr"
  using assms by simp

text \<open>The directory entry \<open>bin/\<close> is matched by both rules and still leaves no trace.\<close>

theorem directory_entry_skipped_witness:
  "endswith (filename \<lparr>filename = ''bin/'', create_system = 3, external_attr = 1106051088\<rparr>) ''/''
   \<and> fst (compile_rule (''.'', ''all'')) ''bin/''
   \<and> fst (compile_rule (''bin/'', ''out'')) ''bin/''
   \<and> install_infolist trace_sys (compile_installs [(''.'', ''all''), (''bin/'', ''out'')])
        [\<lparr>filename = ''bin/'', create_system = 3, external_attr = 1106051088\<rparr>] [] = Inr []"
proof -
  have h: "endswith (filename \<lparr>filename = ''bin/'', create_system = 3, external_attr = 1106051088\<rparr>) ''/''"
    by (simp add: endswith_def)
  have m: "fst (compile_rule (''.'', ''all'')) ''bin/'' \<and> fst (compile_rule (''bin/'', ''out'')) ''bin/''"
    by (simp add: path_eval)
  from directory_entry_skipped [OF h,
      of trace_sys "compile_installs [(''.'', ''all''), (''bin/'', ''out'')]" "[]" "[]" "[]"] h m
  show ?thesis by blast
qed

lemma install_rules_no_match:
  "\<forall>r \<in> set installs. \<not> fst r (filename member) \<Longrightarrow> install_rules sys member installs w = Inr w"
  by (induction installs arbitrary: w) auto

text \<open>
  C8.  A member that is not a directory entry and that no rule matches is passed over:
  the installer calls nothing on the environment for it, returns normally, and goes on
  with the members that follow.
\<close>

theorem unmatched_member_skipped:
  assumes "\<not> endswith (filename member) ''/''"
    and "\<forall>r \<in> set installs. \<not> fst r (filename member)"
  shows "install_infolist sys installs [member] w = Inr w
       \<and> install_infolist sys installs (member # members) w = install_infolist sys installs members w
       \<and> install_infolist trace_sys installs [member] tr = Inr tr"
  using assms by (simp add: install_rules_no_match)

theorem unmatched_member_skipped_witness:
  "\<not> endswith (filename \<lparr>filename = ''doc/index.html'', create_system = 0, external_attr = 0\<rparr>) ''/''
   \<and> \<not> fst (compile_rule (''bin/'', ''out'')) ''doc/index.html''
   \<and> \<not> fst (compile_rule (''README'', ''doc/README'')) ''doc/index.html''
   \<and> install_infolist trace_sys (compile_installs [(''bin/'', ''out''), (''README'', ''doc/README'')])
        [\<lparr>filename = ''doc/index.html'', create_system = 0, external_attr = 0\<rparr>] [] = Inr []"
proof -
  have h: "\<not> endswith (filename \<lparr>filename = ''doc/index.html'', create_system = 0, external_attr = 0\<rparr>) ''/''"
    by (simp add: endswith_def)
  have b: "\<not> fst (compile_rule (''bin/'', ''out'')) ''doc/index.html''"
    and e: "\<not> fst (compile_rule (''README'', ''doc/README'')) ''doc/index.html''"
    by (simp_all add: path_eval)
  have n: "\<forall>r \<in> set (compile_installs [(''bin/'', ''out''), (''README'', ''doc/README'')]).
         \<not> fst r (filename \<lparr>filename = ''doc/index.html'', create_system = 0, external_attr = 0\<rparr>)"
    using b e by (simp add: compile_installs_def)
  from unmatched_member_skipped [OF h n, of trace_sys "[]" "[]" "[]"] h b e
  show ?thesis by blast
qed

subsection \<open>Permission bits\<close>

lemma member_access_unix:
  "create_system m = 3 \<Longrightarrow> member_access m = Some (drop_bit 16 (external_attr m) AND 511)"
  by (simp add: member_access_def S_IRWXUGO_def)

lemma member_access_other: "create_system m \<noteq> 3 \<Longrightarrow> member_access m = None"
  by (simp add: member_access_def)

lemma rwx_mask: "(511::int) = mask 9"
  by (simp add: mask_eq_exp_minus_1)

lemma access_bits:
  "bit (drop_bit 16 x AND (511::int)) n \<longleftrightarrow> n < 9 \<and> bit x (16 + n)"
  by (auto simp add: rwx_mask bit_and_iff bit_mask_iff bit_drop_bit_eq)

lemma access_div_mod: "drop_bit 16 x AND (511::int) = x div 65536 mod 512"
proof -
  have "drop_bit 16 x AND (511::int) = take_bit 9 (drop_bit 16 x)"
    by (simp add: rwx_mask take_bit_eq_mask)
  also have "\<dots> = x div 65536 mod 512"
    by (simp add: take_bit_eq_mod drop_bit_eq_div)
  finally show ?thesis .
qed

lemma install_member_trace_chmod:
  assumes "member_access m = Some a"
  shows "\<exists>ops. install_member trace_sys m t tr = Inr (tr @ ops @ [Chmod t a]) \<and> filter is_chmod ops = []"
proof -
  have "install_member trace_sys m t tr =
      Inr (tr @ (Echo (filename m) t (member_filemode m)
             # (if CHR ''/'' \<in> set t then [Mkdirs (dirname t)] else [])
             @ [OpenMember m, OpenTarget t, CopyFileObj m t]) @ [Chmod t a])"
    using assms by (simp add: install_member_trace)
  moreover have "filter is_chmod (Echo (filename m) t (member_filemode m)
             # (if CHR ''/'' \<in> set t then [Mkdirs (dirname t)] else [])
             @ [OpenMember m, OpenTarget t, CopyFileObj m t]) = []"
    by simp
  ultimately show ?thesis by blast
qed

lemma install_member_trace_no_chmod:
  assumes "member_access m = None"
  shows "\<exists>ops. install_member trace_sys m t tr = Inr (tr @ ops) \<and> filter is_chmod ops = []"
  using assms by (simp add: install_member_trace)

lemma install_member_posix:
  "\<exists>w'. install_member (posix_sys payload umode) m t w = Inr w'
        \<and> files w' t = Some (payload m,
             case member_access m of
               Some a \<Rightarrow> a
             | None \<Rightarrow> (case files w t of None \<Rightarrow> umode | Some old \<Rightarrow> snd old))"
  by (cases "files w t") (auto simp add: install_member_def split: option.splits)

text \<open>
  C2.  For a member created on Unix, the permission bits given to \<^verbatim>\<open>os.chmod\<close> are
  the external attributes shifted right by 16 bits and masked with \<^verbatim>\<open>0o777\<close>: bit
  \<open>n\<close> of them is bit \<open>16 + n\<close> of the attributes for \<open>n < 9\<close> and is clear above,
  so that setuid, setgid, sticky and the file type are dropped; the mode \<^verbatim>\<open>0o100755\<close>
  gives \<^verbatim>\<open>0o755\<close>.  The call is the last operation of \<open>install_member\<close> and the
  only \<open>Chmod\<close>, and in the file system model the target ends with these bits.  For a
  member not created on Unix, \<open>install_member\<close> makes no \<open>Chmod\<close> call.
\<close>

theorem unix_permission_bits:
  "(create_system member = 3 \<longrightarrow>
      (\<exists>ops. install_member trace_sys member target tr
                = Inr (tr @ ops @ [Chmod target (drop_bit 16 (external_attr member) AND S_IRWXUGO)])
             \<and> filter is_chmod ops = [])
      \<and> (\<exists>w'. install_member (posix_sys payload umode) member target w = Inr w'
             \<and> files w' target
                 = Some (payload member, drop_bit 16 (external_attr member) AND S_IRWXUGO))
      \<and> (\<forall>n. bit (drop_bit 16 (external_attr member) AND S_IRWXUGO) n
               \<longleftrightarrow> n < 9 \<and> bit (external_attr member) (16 + n))
      \<and> drop_bit 16 (external_attr member) AND S_IRWXUGO
           = external_attr member div 65536 mod 512
      \<and> (drop_bit 16 (external_attr member) = 33261 \<longrightarrow>
           drop_bit 16 (external_attr member) AND S_IRWXUGO = 493))
   \<and> (create_system member \<noteq> 3 \<longrightarrow>
        (\<exists>ops. install_member trace_sys member target tr = Inr (tr @ ops)
               \<and> filter is_chmod ops = []))"
proof (intro conjI impI)
  assume u: "create_system member = 3"
  show "\<exists>ops. install_member trace_sys member target tr
                = Inr (tr @ ops @ [Chmod target (drop_bit 16 (external_attr member) AND S_IRWXUGO)])
             \<and> filter is_chmod ops = []"
    using install_member_trace_chmod [OF member_access_unix [OF u]]
    by (simp add: S_IRWXUGO_def)
  show "\<exists>w'. install_member (posix_sys payload umode) member target w = Inr w'
             \<and> files w' target
                 = Some (payload member, drop_bit 16 (external_attr member) AND S_IRWXUGO)"
    using install_member_posix [of payload umode member target w]
    by (simp add: member_access_unix [OF u] S_IRWXUGO_def)
  show "\<forall>n. bit (drop_bit 16 (external_attr member) AND S_IRWXUGO) n
               \<longleftrightarrow> n < 9 \<and> bit (external_attr member) (16 + n)"
    by (simp add: S_IRWXUGO_def access_bits)
  show "drop_bit 16 (external_attr member) AND S_IRWXUGO
           = external_attr member div 65536 mod 512"
    by (simp add: S_IRWXUGO_def access_div_mod)
next
  assume "drop_bit 16 (external_attr member) = 33261"
  then show "drop_bit 16 (external_attr member) AND S_IRWXUGO = 493"
    by (simp add: S_IRWXUGO_def)
next
  assume "create_system member \<noteq> 3"
  then show "\<exists>ops. install_member trace_sys member target tr = Inr (tr @ ops)
               \<and> filter is_chmod ops = []"
    by (intro install_member_trace_no_chmod member_access_other)
qed

text \<open>
  The mode \<^verbatim>\<open>0o107755\<close> (setuid, setgid and sticky set) is installed with \<^verbatim>\<open>0o755\<close>;
  a member created on system 0 is installed without \<open>Chmod\<close>.
\<close>

theorem unix_permission_bits_witness:
  "create_system \<lparr>filename = ''bin/tool'', create_system = 3, external_attr = 2414673920\<rparr> = 3
   \<and> drop_bit 16 (external_attr \<lparr>filename = ''bin/tool'', create_system = 3, external_attr = 2414673920\<rparr>) = 36845
   \<and> (\<exists>ops. install_member trace_sys
               \<lparr>filename = ''bin/tool'', create_system = 3, external_attr = 2414673920\<rparr> ''out/tool'' []
             = Inr (ops @ [Chmod ''out/tool'' 493])
          \<and> filter is_chmod ops = [])
   \<and> create_system \<lparr>filename = ''bin/tool'', create_system = 0, external_attr = 32\<rparr> \<noteq> 3
   \<and> (\<exists>ops. install_member trace_sys
               \<lparr>filename = ''bin/tool'', create_system = 0, external_attr = 32\<rparr> ''out/tool'' []
             = Inr ops
          \<and> filter is_chmod ops = [])"
  (is "create_system ?m = 3 \<and> _ \<and> _ \<and> create_system ?d \<noteq> 3 \<and> _")
proof -
  have u: "create_system ?m = 3" by simp
  have d: "create_system ?d \<noteq> 3" by simp
  have f: "drop_bit 16 (external_attr ?m) = 36845" by simp
  have a: "drop_bit 16 (external_attr ?m) AND S_IRWXUGO = 493"
    by (simp add: S_IRWXUGO_def)
  from unix_permission_bits [of ?m "''out/tool''" "[]" "\<lambda>m. []" 420 "\<lparr>files = Map.empty, made_dirs = [], console = []\<rparr>"] u
  have "\<exists>ops. install_member trace_sys ?m ''out/tool'' []
                = Inr ([] @ ops @ [Chmod ''out/tool'' (drop_bit 16 (external_attr ?m) AND S_IRWXUGO)])
             \<and> filter is_chmod ops = []"
    by blast
  then have 1: "\<exists>ops. install_member trace_sys ?m ''out/tool'' [] = Inr (ops @ [Chmod ''out/tool'' 493])
             \<and> filter is_chmod ops = []"
    by (simp only: a append_Nil)
  from unix_permission_bits [of ?d "''out/tool''" "[]" "\<lambda>m. []" 420 "\<lparr>files = Map.empty, made_dirs = [], console = []\<rparr>"] d
  have "\<exists>ops. install_member trace_sys ?d ''out/tool'' [] = Inr ([] @ ops) \<and> filter is_chmod ops = []"
    by blast
  then have 2: "\<exists>ops. install_member trace_sys ?d ''out/tool'' [] = Inr ops \<and> filter is_chmod ops = []"
    by (simp only: append_Nil)
  from u f 1 d 2 show ?thesis by blast
qed

text \<open>
  C10.  For a member created on Unix whose masked permission bits are all zero,
  \<^verbatim>\<open>access\<close> is the integer 0 and not \<^verbatim>\<open>None\<close>: \<open>install_member\<close> still ends with
  \<open>Chmod target 0\<close>, and in the file system model the target ends with mode 0.  The
  permission step is left out exactly when the member was not created on Unix.
\<close>

theorem zero_access_still_chmod:
  "(create_system member = 3 \<and> drop_bit 16 (external_attr member) AND S_IRWXUGO = 0 \<longrightarrow>
      member_access member = Some 0
      \<and> (\<exists>ops. install_member trace_sys member target tr = Inr (tr @ ops @ [Chmod target 0]))
      \<and> (\<exists>w'. install_member (posix_sys payload umode) member target w = Inr w'
             \<and> files w' target = Some (payload member, 0)))
   \<and> (member_access member = None \<longleftrightarrow> create_system member \<noteq> 3)"
proof (intro conjI impI)
  assume z: "create_system member = 3 \<and> drop_bit 16 (external_attr member) AND S_IRWXUGO = 0"
  then show a: "member_access member = Some 0"
    by (simp add: member_access_def)
  show "\<exists>ops. install_member trace_sys member target tr = Inr (tr @ ops @ [Chmod target 0])"
    using install_member_trace_chmod [OF a] by blast
  show "\<exists>w'. install_member (posix_sys payload umode) member target w = Inr w'
             \<and> files w' target = Some (payload member, 0)"
    using install_member_posix [of payload umode member target w] by (simp add: a)
next
  show "member_access member = None \<longleftrightarrow> create_system member \<noteq> 3"
    by (simp add: member_access_def)
qed

theorem zero_access_still_chmod_witness:
  "create_system \<lparr>filename = ''secret'', create_system = 3, external_attr = 2147483648\<rparr> = 3
   \<and> drop_bit 16 (external_attr \<lparr>filename = ''secret'', create_system = 3, external_attr = 2147483648\<rparr>)
        AND S_IRWXUGO = 0
   \<and> (\<exists>w'. install_member (posix_sys (\<lambda>m. [1, 2]) 420)
               \<lparr>filename = ''secret'', create_system = 3, external_attr = 2147483648\<rparr> ''secret''
               \<lparr>files = Map.empty, made_dirs = [], console = []\<rparr> = Inr w'
          \<and> files w' ''secret'' = Some ([1, 2], 0))"
  (is "create_system ?m = 3 \<and> _ \<and> _")
proof -
  have z: "create_system ?m = 3 \<and> drop_bit 16 (external_attr ?m) AND S_IRWXUGO = 0"
    by (simp add: S_IRWXUGO_def)
  from zero_access_still_chmod [of ?m "''secret''" "[]" "\<lambda>m. [1, 2]" 420
      "\<lparr>files = Map.empty, made_dirs = [], console = []\<rparr>"] z
  have "\<exists>w'. install_member (posix_sys (\<lambda>m. [1, 2]) 420) ?m ''secret''
               \<lparr>files = Map.empty, made_dirs = [], console = []\<rparr> = Inr w'
          \<and> files w' ''secret'' = Some ((\<lambda>m. [1, 2]) ?m, 0)"
    by blast
  with z show ?thesis by simp
qed

subsection \<open>The cache\<close>

lemma entries_sink_write: "entries (sink_write key chunk c) = entries c"
  by (simp add: sink_write_def)

lemma entries_fold_sink_write: "entries (fold (sink_write key) chunks c) = entries c"
  by (induction chunks arbitrary: c) (simp_all add: entries_sink_write)

lemma temps_fold_sink_write:
  "temps c key = Some written \<Longrightarrow>
     temps (fold (sink_write key) chunks c) key = Some (written @ concat chunks)"
  by (induction chunks arbitrary: c written) (simp_all add: sink_write_def)

lemma save_file_interrupted:
  "fst (save_file c key (chunks, False)) = Inl Interrupted
   \<and> entries (snd (save_file c key (chunks, False))) = entries c
   \<and> temps (snd (save_file c key (chunks, False))) key = None"
  by (simp add: save_file_def Let_def entries_fold_sink_write)

lemma save_file_completed:
  "fst (save_file c key (chunks, True)) = Inr ()
   \<and> cache_get (snd (save_file c key (chunks, True))) key = Inr (concat chunks)
   \<and> temps (snd (save_file c key (chunks, True))) key = None"
proof -
  have "temps (fold (sink_write key) chunks (c\<lparr>temps := (temps c)(key \<mapsto> [])\<rparr>)) key
          = Some ([] @ concat chunks)"
    by (rule temps_fold_sink_write) simp
  then show ?thesis
    by (simp add: save_file_def Let_def cache_get_def)
qed

lemma cache_get_entries: "entries c' = entries c \<Longrightarrow> cache_get c' key = cache_get c key"
  by (simp add: cache_get_def)

lemma download_entry_interrupted:
  assumes "fst (download_entry gitlab entry (c, out)) = Inl Interrupted"
  shows "cache_get (fst (snd (download_entry gitlab entry (c, out)))) (zip_name (fst entry) (snd entry))
           = Inl (KeyError (zip_name (fst entry) (snd entry)))"
proof (cases "entries c (zip_name (fst entry) (snd entry))")
  case None
  obtain chunks ok where g: "gitlab (fst entry) (snd entry) = (chunks, ok)"
    by (cases "gitlab (fst entry) (snd entry)")
  have "\<not> ok" using assms None g save_file_completed [of c "zip_name (fst entry) (snd entry)" chunks]
    by (cases ok) (auto simp add: download_entry_def Let_def cache_get_def)
  then show ?thesis
    using None g save_file_interrupted [of c "zip_name (fst entry) (snd entry)" chunks]
    by (simp add: download_entry_def Let_def cache_get_def)
next
  case (Some content)
  then show ?thesis using assms
    by (simp add: download_entry_def Let_def cache_get_def)
qed

lemma download_entry_completed:
  assumes "cache_get c (zip_name (fst entry) (snd entry)) = Inl (KeyError (zip_name (fst entry) (snd entry)))"
    and "snd (gitlab (fst entry) (snd entry))"
  shows "fst (download_entry gitlab entry (c, out)) = Inr ()
       \<and> cache_get (fst (snd (download_entry gitlab entry (c, out)))) (zip_name (fst entry) (snd entry))
           = Inr (concat (fst (gitlab (fst entry) (snd entry))))"
proof -
  obtain chunks where g: "gitlab (fst entry) (snd entry) = (chunks, True)"
    using assms(2) by (cases "gitlab (fst entry) (snd entry)") auto
  show ?thesis
    using assms(1) g save_file_completed [of c "zip_name (fst entry) (snd entry)" chunks]
    by (simp add: download_entry_def Let_def)
qed

text \<open>
  C3.  A save for a key that is interrupted before the scope completes ends with the
  exception, discards the temporary file and leaves the backing files as they were: no
  entry is promoted, so a key that \<open>cache_get\<close> did not find is still not found.  A
  save that follows and completes makes \<open>cache_get\<close> return exactly the bytes written
  by it.  In \<open>download_entry\<close>, where a save is only started after a miss, an
  interrupted pass leaves the entry's key not found, and a following pass whose transfer
  completes makes \<open>cache_get\<close> return the bytes of that transfer.
\<close>

theorem interrupted_save_leaves_no_entry:
  "(cache_get c key = Inl (KeyError key) \<longrightarrow>
      cache_get (snd (save_file c key (chunks, False))) key = Inl (KeyError key))
   \<and> fst (save_file c key (chunks, False)) = Inl Interrupted
   \<and> temps (snd (save_file c key (chunks, False))) key = None
   \<and> entries (snd (save_file c key (chunks, False))) = entries c
   \<and> cache_get (snd (save_file (snd (save_file c key (chunks, False))) key (chunks', True))) key
       = Inr (concat chunks')
   \<and> (fst (download_entry gitlab entry (c, out)) = Inl Interrupted \<longrightarrow>
        cache_get (fst (snd (download_entry gitlab entry (c, out)))) (zip_name (fst entry) (snd entry))
          = Inl (KeyError (zip_name (fst entry) (snd entry)))
        \<and> (snd (gitlab' (fst entry) (snd entry)) \<longrightarrow>
             cache_get (fst (snd (download_entry gitlab' entry
                                    (snd (download_entry gitlab entry (c, out))))))
                       (zip_name (fst entry) (snd entry))
               = Inr (concat (fst (gitlab' (fst entry) (snd entry))))))"
proof (intro conjI impI)
  assume "cache_get c key = Inl (KeyError key)"
  then show "cache_get (snd (save_file c key (chunks, False))) key = Inl (KeyError key)"
    using cache_get_entries [of "snd (save_file c key (chunks, False))" c key]
    by (simp add: save_file_interrupted)
next
  show "fst (save_file c key (chunks, False)) = Inl Interrupted"
    by (simp add: save_file_interrupted)
  show "temps (snd (save_file c key (chunks, False))) key = None"
    by (simp add: save_file_interrupted)
  show "entries (snd (save_file c key (chunks, False))) = entries c"
    by (simp add: save_file_interrupted)
  show "cache_get (snd (save_file (snd (save_file c key (chunks, False))) key (chunks', True))) key
       = Inr (concat chunks')"
    by (simp add: save_file_completed)
next
  assume i: "fst (download_entry gitlab entry (c, out)) = Inl Interrupted"
  then show k: "cache_get (fst (snd (download_entry gitlab entry (c, out)))) (zip_name (fst entry) (snd entry))
          = Inl (KeyError (zip_name (fst entry) (snd entry)))"
    by (rule download_entry_interrupted)
  assume ok: "snd (gitlab' (fst entry) (snd entry))"
  obtain r c' out' where d: "download_entry gitlab entry (c, out) = (r, c', out')"
    by (cases "download_entry gitlab entry (c, out)")
  from k d have m: "cache_get c' (zip_name (fst entry) (snd entry))
          = Inl (KeyError (zip_name (fst entry) (snd entry)))" by simp
  from m ok have "cache_get (fst (snd (download_entry gitlab' entry (c', out'))))
                       (zip_name (fst entry) (snd entry))
               = Inr (concat (fst (gitlab' (fst entry) (snd entry))))"
    by (simp add: download_entry_completed)
  then show "cache_get (fst (snd (download_entry gitlab' entry
                                    (snd (download_entry gitlab entry (c, out))))))
                       (zip_name (fst entry) (snd entry))
               = Inr (concat (fst (gitlab' (fst entry) (snd entry))))"
    by (simp add: d)
qed

text \<open>
  An empty cache, a transfer cut short after the chunk \<open>[1, 2]\<close>, then a complete
  transfer of the chunks \<open>[3]\<close> and \<open>[4]\<close>.
\<close>

theorem interrupted_save_leaves_no_entry_witness:
  "cache_get \<lparr>entries = Map.empty, temps = Map.empty\<rparr> ''g/p/7.zip'' = Inl (KeyError ''g/p/7.zip'')
   \<and> cache_get (snd (save_file \<lparr>entries = Map.empty, temps = Map.empty\<rparr> ''g/p/7.zip'' ([[1, 2]], False)))
        ''g/p/7.zip'' = Inl (KeyError ''g/p/7.zip'')
   \<and> fst (download_entry (\<lambda>project job_id. ([[1, 2]], False)) (''g/p'', 7)
            (\<lparr>entries = Map.empty, temps = Map.empty\<rparr>, [])) = Inl Interrupted
   \<and> snd ((\<lambda>project job_id. ([[3], [4]], True)) (fst (''g/p'', 7 :: int)) (snd (''g/p'', 7 :: int)))
   \<and> cache_get (fst (snd (download_entry (\<lambda>project job_id. ([[3], [4]], True)) (''g/p'', 7)
                      (snd (download_entry (\<lambda>project job_id. ([[1, 2]], False)) (''g/p'', 7)
                              (\<lparr>entries = Map.empty, temps = Map.empty\<rparr>, []))))))
        (zip_name ''g/p'' 7) = Inr [3, 4]"
  (is "cache_get ?c ?k = _ \<and> _ \<and> fst (download_entry ?g ?e (?c, [])) = _ \<and> _ \<and> _")
proof -
  have m: "cache_get ?c ?k = Inl (KeyError ?k)"
    by (simp add: cache_get_def)
  have i: "fst (download_entry ?g ?e (?c, [])) = Inl Interrupted"
    by (simp add: download_entry_def Let_def cache_get_def save_file_interrupted)
  have ok: "snd ((\<lambda>project job_id. ([[3], [4]], True)) (fst (''g/p'', 7 :: int)) (snd (''g/p'', 7 :: int)))"
    by simp
  from interrupted_save_leaves_no_entry [of ?c ?k "[[1, 2]]" "[]" ?g ?e "[]"
      "\<lambda>project job_id. ([[3], [4]], True)"] m i ok
  show ?thesis by simp
qed

subsection \<open>Filenames that leave the destination\<close>

lemmas under_eval = path_under_def normal_comps_def startswith_def Let_def

lemma path_join_absolute: "startswith b ''/'' \<Longrightarrow> path_join a b = b"
  by (simp add: path_join_def)

lemma path_join_relative: "\<not> startswith b ''/'' \<Longrightarrow> startswith (path_join a b) a"
  by (simp add: path_join_def startswith_def)

lemma absolute_not_under:
  "startswith p ''/'' \<Longrightarrow> \<not> startswith root ''/'' \<Longrightarrow> \<not> path_under root p"
  by (simp add: path_under_def Let_def)

text \<open>
  C9 (as amended).  The translators pass the member's filename on unchecked.  A
  filename with \<open>..\<close> components can lead out of the destination: the copy-all rule
  to \<open>out\<close> sends \<open>../../etc/passwd\<close>, and the directory rule \<open>lib/\<close> sends
  \<open>lib/../../x\<close>, to a path that is not under \<open>out\<close>.  For an absolute filename the
  copy-all translator yields the filename itself, the destination being discarded by
  the join, which is not under a relative destination.  The directory translator
  discards the destination exactly when what follows the pattern prefix begins with a
  separator; otherwise its result is the join of the destination with that remainder
  and begins with the destination.
\<close>

theorem translators_do_not_sanitise:
  "\<not> path_under ''out'' (snd (compile_rule (''.'', ''out'')) ''../../etc/passwd'')
   \<and> fst (compile_rule (''lib/'', ''out'')) ''lib/../../x''
   \<and> \<not> path_under ''out'' (snd (compile_rule (''lib/'', ''out'')) ''lib/../../x'')
   \<and> (startswith f ''/'' \<longrightarrow>
        snd (compile_rule (''.'', destination)) f = f
        \<and> (\<not> startswith destination ''/'' \<longrightarrow>
             \<not> path_under destination (snd (compile_rule (''.'', destination)) f)))
   \<and> (endswith source ''/'' \<and> startswith rest ''/'' \<longrightarrow>
        fst (compile_rule (source, destination)) (source @ rest)
        \<and> snd (compile_rule (source, destination)) (source @ rest) = rest)
   \<and> (endswith source ''/'' \<and> \<not> startswith rest ''/'' \<longrightarrow>
        snd (compile_rule (source, destination)) (source @ rest) = path_join destination rest
        \<and> startswith (snd (compile_rule (source, destination)) (source @ rest)) destination)"
proof (intro conjI impI)
  show "\<not> path_under ''out'' (snd (compile_rule (''.'', ''out'')) ''../../etc/passwd'')"
    by (simp add: path_eval under_eval)
  show "fst (compile_rule (''lib/'', ''out'')) ''lib/../../x''"
    by (simp add: path_eval)
  show "\<not> path_under ''out'' (snd (compile_rule (''lib/'', ''out'')) ''lib/../../x'')"
    by (simp add: path_eval under_eval)
next
  assume a: "startswith f ''/''"
  then show j: "snd (compile_rule (''.'', destination)) f = f"
    by (simp add: compile_rule_copy_all path_join_absolute)
  assume "\<not> startswith destination ''/''"
  with a show "\<not> path_under destination (snd (compile_rule (''.'', destination)) f)"
    by (simp only: j absolute_not_under not_False_eq_True)
next
  assume d: "endswith source ''/'' \<and> startswith rest ''/''"
  then show "fst (compile_rule (source, destination)) (source @ rest)"
    by (simp add: compile_rule_directory startswith_iff)
  from d show "snd (compile_rule (source, destination)) (source @ rest) = rest"
    by (simp add: compile_rule_directory slice_from_def path_join_absolute)
next
  assume d: "endswith source ''/'' \<and> \<not> startswith rest ''/''"
  then show j: "snd (compile_rule (source, destination)) (source @ rest) = path_join destination rest"
    by (simp add: compile_rule_directory slice_from_def)
  from d have "startswith (path_join destination rest) destination"
    by (intro path_join_relative) simp
  then show "startswith (snd (compile_rule (source, destination)) (source @ rest)) destination"
    by (simp only: j)
qed

text \<open>
  The absolute filename \<open>/etc/passwd\<close> under the copy-all rule, the filename
  \<open>bin//etc/passwd\<close> under the directory rule \<open>bin/\<close>, and \<open>bin/tool\<close> under the same
  rule.
\<close>

theorem translators_do_not_sanitise_witness:
  "startswith ''/etc/passwd'' ''/'' \<and> \<not> startswith ''out'' ''/''
   \<and> snd (compile_rule (''.'', ''out'')) ''/etc/passwd'' = ''/etc/passwd''
   \<and> \<not> path_under ''out'' (snd (compile_rule (''.'', ''out'')) ''/etc/passwd'')
   \<and> endswith ''bin/'' ''/''
   \<and> fst (compile_rule (''bin/'', ''out'')) ''bin//etc/passwd''
   \<and> snd (compile_rule (''bin/'', ''out'')) ''bin//etc/passwd'' = ''/etc/passwd''
   \<and> \<not> startswith ''tool'' ''/''
   \<and> snd (compile_rule (''bin/'', ''out'')) ''bin/tool'' = ''out/tool''"
proof -
  have a: "startswith ''/etc/passwd'' ''/''" and r: "\<not> startswith ''out'' ''/''"
    and t: "\<not> startswith ''tool'' ''/''"
    by (simp_all add: startswith_def)
  have e: "endswith ''bin/'' ''/''" by (simp add: endswith_def)
  have j: "path_join ''out'' ''tool'' = ''out/tool''"
    by (simp add: path_join_def startswith_def endswith_def)
  from translators_do_not_sanitise [of "''/etc/passwd''" "''out''" "''bin/''" "''/etc/passwd''"]
       translators_do_not_sanitise [of "''/etc/passwd''" "''out''" "''bin/''" "''tool''"]
       a r t e j
  show ?thesis by simp
qed

text \<open>
  C9 as stated fails for the directory kind: the absolute filename \<open>/etc/passwd\<close> is
  matched by the directory rule \<open>/etc/\<close> with destination \<open>out\<close> and is sent to
  \<open>out/passwd\<close>, which keeps the destination and lies under it.
\<close>

theorem directory_rule_keeps_root_counterexample:
  "startswith ''/etc/passwd'' ''/''
   \<and> endswith ''/etc/'' ''/''
   \<and> fst (compile_rule (''/etc/'', ''out'')) ''/etc/passwd''
   \<and> snd (compile_rule (''/etc/'', ''out'')) ''/etc/passwd'' = ''out/passwd''
   \<and> path_under ''out'' (snd (compile_rule (''/etc/'', ''out'')) ''/etc/passwd'')"
  by (simp add: path_eval under_eval)

end
